theory Spec2Isabelle
  imports Main "HOL-Library.AList"
begin

section \<open>The deploy handler of faasd (pkg/provider/handlers/deploy.go)\<close>

text \<open>
  The handler decodes a deployment request, checks that its secrets exist, and runs the
  provisioning pipeline \<open>deploy\<close>: image, container, task, network, wait, start.
  Each Go function of the file is one HOL function below, with the same name.

  \<^item> A Go \<open>map[string]string\<close> is an association list with distinct keys; the order of
    the list is the order in which \<open>range\<close> visits the map (Go leaves it open, so a
    theorem about every list is a theorem about every iteration order). A nil map is
    \<open>None\<close> where the code tells nil from empty, and \<open>labels[k] = v\<close> is \<open>AList.update\<close>.
  \<^item> A Go \<open>error\<close> is its message, a \<open>string\<close>; a returned \<open>nil\<close> error is \<open>None\<close>.
  \<^item> The calls that leave the process (file system, container runtime, network plugin,
    HTTP response) are appended to a call log, the state that every effectful function
    takes and returns. What the outside answers is a parameter, the record \<open>world\<close>.
  \<^item> Log lines (\<open>log.Printf\<close>) and the getters that only feed them are left out.
\<close>

subsection \<open>Data\<close>

type_synonym go_map = "(string \<times> string) list"

text \<open>The fields of \<open>types.FunctionDeployment\<close> that the file reads. \<open>Labels\<close> and
  \<open>Annotations\<close> are pointers to maps in Go, hence optional.\<close>

record FunctionDeployment =
  Service :: string
  Image :: string
  EnvProcess :: string
  EnvVars :: go_map
  Secrets :: "string list"
  Labels :: "go_map option"
  Annotations :: "go_map option"

text \<open>\<open>specs.Mount\<close> of the OCI runtime specification.\<close>

record Mount =
  Destination :: string
  Type :: string
  Source :: string
  Options :: "string list"

text \<open>Handles owned by the container runtime and the network plugin.\<close>

datatype image = ImageHandle string
datatype container = ContainerHandle string
datatype task = TaskHandle string
datatype network = NetworkHandle string

fun container_ID :: "container \<Rightarrow> string" where
  "container_ID (ContainerHandle n) = n"

text \<open>The arguments of \<open>client.NewContainer\<close> in \<open>deploy\<close>: the name, the image, the
  snapshotter, the name of the new snapshot, the capabilities, mounts and environment
  of the OCI spec, and the container labels.\<close>

record NewContainerOpts =
  opt_name :: string
  opt_image :: image
  opt_snapshotter :: string
  opt_snapshot :: string
  opt_capabilities :: "string list"
  opt_mounts :: "Mount list"
  opt_env :: "string list"
  opt_labels :: "go_map option"

text \<open>One entry of the call log per call that leaves the process.\<close>

datatype call =
    CallStat string
  | CallPrepareImage string string bool
  | CallNewContainer NewContainerOpts
  | CallNewTask container
  | CallCreateCNINetwork task
  | CallGetIPAddress network task
  | CallWait task
  | CallStart task
  | CallHttpError string nat

text \<open>
  What the outside answers. Library functions of Go and of containerd that the file
  calls are fields too: their code is not part of the file. (For \<open>path.Join\<close> the
  function of Go's library is modelled further down, as \<open>go_path_Join\<close>.)
  \<open>Stat p\<close> is True when \<open>os.Stat(p)\<close> returns no error; \<open>Getwd\<close> is the directory
  \<open>os.Getwd()\<close> returns (its error is dropped by the code); a fallible call answers
  \<open>Inl\<close> of the error message or \<open>Inr\<close> of its value, and \<open>Wait\<close> and \<open>Start\<close>, which
  the code uses for their error only, answer the error or \<open>None\<close>.
\<close>

record world =
  Unmarshal :: "string \<Rightarrow> string + FunctionDeployment"
  Stat :: "string \<Rightarrow> bool"
  path_Join :: "string \<Rightarrow> string \<Rightarrow> string"
  Getwd :: string
  LookupEnv :: "string \<Rightarrow> string option"
  ParseNormalizedNamed :: "string \<Rightarrow> string + string"
  TagNameOnly :: "string \<Rightarrow> string"
  PrepareImage :: "string \<Rightarrow> string \<Rightarrow> bool \<Rightarrow> string + image"
  NewContainer :: "NewContainerOpts \<Rightarrow> string + container"
  NewTask :: "container \<Rightarrow> string + task"
  CreateCNINetwork :: "task \<Rightarrow> string + network"
  GetIPAddress :: "network \<Rightarrow> task \<Rightarrow> string + string"
  Wait :: "task \<Rightarrow> string option"
  Start :: "task \<Rightarrow> string option"

definition StatusBadRequest :: nat where
  "StatusBadRequest = 400"

definition annotationLabelPrefix :: string where
  "annotationLabelPrefix = ''com.openfaas.annotations.''"

subsection \<open>buildLabels\<close>

text \<open>The first loop of \<open>buildLabels\<close>: every explicit label is stored as it is.\<close>

fun copy_labels :: "go_map \<Rightarrow> go_map \<Rightarrow> go_map" where
  "copy_labels [] labels = labels"
| "copy_labels ((k, v) # rest) labels = copy_labels rest (AList.update k v labels)"

text \<open>The second loop: an annotation is stored under its prefixed key unless that key is
  taken, in which case the function returns at once with the error (\<open>Inl\<close>).\<close>

fun merge_annotations :: "go_map \<Rightarrow> go_map \<Rightarrow> string + go_map" where
  "merge_annotations [] labels = Inr labels"
| "merge_annotations ((k, v) # rest) labels =
     (let key = annotationLabelPrefix @ k in
      if map_of labels key = None
      then merge_annotations rest (AList.update key v labels)
      else Inl (''Keys '' @ k @ '' can not be used as a labels as is clashes with annotations''))"

text \<open>Go returns the pair (map, error): \<open>(nil, err)\<close> on a clash, \<open>(labels, nil)\<close> otherwise.\<close>

definition buildLabels :: "FunctionDeployment \<Rightarrow> go_map option \<times> string option" where
  "buildLabels request =
     (let labels = [];
          labels = (case Labels request of
                      None \<Rightarrow> labels
                    | Some m \<Rightarrow> copy_labels m labels)
      in case Annotations request of
           None \<Rightarrow> (Some labels, None)
         | Some a \<Rightarrow>
             (case merge_annotations a labels of
                Inl err \<Rightarrow> (None, Some err)
              | Inr labels' \<Rightarrow> (Some labels', None)))"

subsection \<open>prepareEnv\<close>

text \<open>The loop over \<open>reqEnvVars\<close>; its state is (\<open>envs\<close>, \<open>fprocessFound\<close>, \<open>fprocess\<close>).\<close>

fun prepareEnv_loop ::
  "go_map \<Rightarrow> string list \<times> bool \<times> string \<Rightarrow> string list \<times> bool \<times> string" where
  "prepareEnv_loop [] st = st"
| "prepareEnv_loop ((k, v) # rest) (envs, fprocessFound, fprocess) =
     (if k = ''fprocess''
      then prepareEnv_loop rest (envs, True, v)
      else prepareEnv_loop rest (envs @ [k @ ''='' @ v], fprocessFound, fprocess))"

definition prepareEnv :: "string \<Rightarrow> go_map \<Rightarrow> string list" where
  "prepareEnv envProcess reqEnvVars =
     (let envs = [];
          fprocessFound = False;
          fprocess = ''fprocess='' @ envProcess;
          fprocessFound = (if length envProcess > 0 then True else fprocessFound)
      in case prepareEnv_loop reqEnvVars (envs, fprocessFound, fprocess) of
           (envs', fprocessFound', fprocess') \<Rightarrow>
             if fprocessFound' then envs' @ [fprocess'] else envs')"

subsection \<open>Mounts and secrets\<close>

definition getMounts :: "world \<Rightarrow> Mount list" where
  "getMounts w =
     (let wd = Getwd w;
          mounts = [];
          mounts = mounts @ [\<lparr>Destination = ''/etc/resolv.conf'', Type = ''bind'',
                              Source = path_Join w wd ''resolv.conf'',
                              Options = [''rbind'', ''ro'']\<rparr>];
          mounts = mounts @ [\<lparr>Destination = ''/etc/hosts'', Type = ''bind'',
                              Source = path_Join w wd ''hosts'',
                              Options = [''rbind'', ''ro'']\<rparr>]
      in mounts)"

text \<open>The loop of \<open>deploy\<close> over \<open>req.Secrets\<close> that appends one mount per secret.\<close>

fun secret_mounts :: "world \<Rightarrow> string \<Rightarrow> string list \<Rightarrow> Mount list \<Rightarrow> Mount list" where
  "secret_mounts w secretMountPath [] mounts = mounts"
| "secret_mounts w secretMountPath (secret # rest) mounts =
     secret_mounts w secretMountPath rest
       (mounts @ [\<lparr>Destination = path_Join w ''/var/openfaas/secrets'' secret,
                   Type = ''bind'',
                   Source = path_Join w secretMountPath secret,
                   Options = [''rbind'', ''ro'']\<rparr>])"

fun validateSecrets ::
  "world \<Rightarrow> string \<Rightarrow> string list \<Rightarrow> call list \<Rightarrow> string option \<times> call list" where
  "validateSecrets w secretMountPath [] log = (None, log)"
| "validateSecrets w secretMountPath (secret # rest) log =
     (let p = path_Join w secretMountPath secret;
          log = log @ [CallStat p]
      in if \<not> Stat w p
         then (Some (''unable to find secret: '' @ secret), log)
         else validateSecrets w secretMountPath rest log)"

subsection \<open>createTask, deploy and the handler\<close>

definition createTask :: "world \<Rightarrow> container \<Rightarrow> call list \<Rightarrow> string option \<times> call list" where
  "createTask w container log =
     (let name = container_ID container;
          log = log @ [CallNewTask container]
      in case NewTask w container of
           Inl taskErr \<Rightarrow>
             (Some (''unable to start task: '' @ name @ '', error: '' @ taskErr), log)
         | Inr task \<Rightarrow>
             (let log = log @ [CallCreateCNINetwork task]
              in case CreateCNINetwork w task of
                   Inl err \<Rightarrow> (Some err, log)
                 | Inr network \<Rightarrow>
                     (let log = log @ [CallGetIPAddress network task]
                      in case GetIPAddress w network task of
                           Inl err \<Rightarrow> (Some err, log)
                         | Inr ip \<Rightarrow>
                             (let log = log @ [CallWait task]
                              in case Wait w task of
                                   Some waitErr \<Rightarrow>
                                     (Some (''Unable to wait for task to start: '' @ name
                                            @ '': '' @ waitErr), log)
                                 | None \<Rightarrow>
                                     (let log = log @ [CallStart task]
                                      in case Start w task of
                                           Some startErr \<Rightarrow>
                                             (Some (''Unable to start task: '' @ name
                                                    @ '': '' @ startErr), log)
                                         | None \<Rightarrow> (None, log))))))"

text \<open>In \<open>deploy\<close> the error of \<open>buildLabels\<close> is assigned to \<open>err\<close> and overwritten by
  the next statement, the call of \<open>client.NewContainer\<close>; only \<open>labels\<close> is used.\<close>

definition deploy ::
  "world \<Rightarrow> FunctionDeployment \<Rightarrow> string \<Rightarrow> bool \<Rightarrow> call list \<Rightarrow> string option \<times> call list" where
  "deploy w req secretMountPath alwaysPull log =
     (case ParseNormalizedNamed w (Image req) of
        Inl err \<Rightarrow> (Some err, log)
      | Inr r \<Rightarrow>
          (let imgRef = TagNameOnly w r;
               snapshotter = (case LookupEnv w ''snapshotter'' of
                                Some val \<Rightarrow> val
                              | None \<Rightarrow> '''');
               log = log @ [CallPrepareImage imgRef snapshotter alwaysPull]
           in case PrepareImage w imgRef snapshotter alwaysPull of
                Inl err \<Rightarrow> (Some (''unable to pull image '' @ imgRef @ '': '' @ err), log)
              | Inr img \<Rightarrow>
                  (let envs = prepareEnv (EnvProcess req) (EnvVars req);
                       mounts = getMounts w;
                       mounts = secret_mounts w secretMountPath (Secrets req) mounts;
                       name = Service req;
                       labels = fst (buildLabels req);
                       opts = \<lparr>opt_name = name, opt_image = img,
                               opt_snapshotter = snapshotter,
                               opt_snapshot = name @ ''-snapshot'',
                               opt_capabilities = [''CAP_NET_RAW''],
                               opt_mounts = mounts, opt_env = envs,
                               opt_labels = labels\<rparr>;
                       log = log @ [CallNewContainer opts]
                   in case NewContainer w opts of
                        Inl err \<Rightarrow>
                          (Some (''unable to create container: '' @ name
                                 @ '', error: '' @ err), log)
                      | Inr container \<Rightarrow> createTask w container log)))"

text \<open>
  The function returned by \<open>MakeDeployHandler\<close>, applied to a request whose body is
  \<open>body\<close> (\<open>None\<close> for a nil body). Its effect is the call log: \<open>http.Error\<close> is a call.
  After a failed \<open>validateSecrets\<close> the code writes the error and, having no
  \<open>return\<close> there, goes on to \<open>deploy\<close>.
\<close>

definition MakeDeployHandler ::
  "world \<Rightarrow> string \<Rightarrow> bool \<Rightarrow> string option \<Rightarrow> call list \<Rightarrow> call list" where
  "MakeDeployHandler w secretMountPath alwaysPull body log =
     (case body of
        None \<Rightarrow> log @ [CallHttpError ''expected a body'' StatusBadRequest]
      | Some b \<Rightarrow>
          (case Unmarshal w b of
             Inl err \<Rightarrow> log @ [CallHttpError err StatusBadRequest]
           | Inr req \<Rightarrow>
               (let (err, log) = validateSecrets w secretMountPath (Secrets req) log;
                    log = (case err of
                             Some e \<Rightarrow> log @ [CallHttpError e StatusBadRequest]
                           | None \<Rightarrow> log);
                    (deployErr, log) = deploy w req secretMountPath alwaysPull log
                in case deployErr of
                     Some e \<Rightarrow> log @ [CallHttpError e StatusBadRequest]
                   | None \<Rightarrow> log)))"

subsection \<open>Joining paths\<close>

text \<open>
  \<open>path.Clean\<close> and \<open>path.Join\<close> of Go's standard library (package \<open>path\<close>), after their
  Go source; they are not code of this repository. \<open>Clean\<close> reads the path from the
  left and writes the cleaned path to a buffer: \<open>clean_loop\<close> is its loop, with the
  unread rest of the path, the buffer written so far, and \<open>dotdot\<close>, the length of the
  buffer's start that a \<open>..\<close> element may not remove. An empty element and a \<open>.\<close>
  element are skipped, a \<open>..\<close> element removes the last element written (\<open>backtrack\<close>
  is that inner loop over the write index), and any other element is copied.
\<close>

fun backtrack :: "string \<Rightarrow> nat \<Rightarrow> nat \<Rightarrow> nat" where
  "backtrack out dotdot 0 = 0"
| "backtrack out dotdot (Suc w) =
     (if Suc w > dotdot \<and> out ! Suc w \<noteq> CHR ''/'' then backtrack out dotdot w else Suc w)"

function clean_loop :: "bool \<Rightarrow> string \<Rightarrow> string \<Rightarrow> nat \<Rightarrow> string" where
  "clean_loop rooted [] out dotdot = out"
| "clean_loop rooted (c # xs) out dotdot =
     (if c = CHR ''/'' then clean_loop rooted xs out dotdot
      else if c = CHR ''.'' \<and> (xs = [] \<or> hd xs = CHR ''/'') then clean_loop rooted xs out dotdot
      else if c = CHR ''.'' \<and> hd xs = CHR ''.'' \<and> (tl xs = [] \<or> hd (tl xs) = CHR ''/'') then
        (if length out > dotdot
         then clean_loop rooted (tl xs) (take (backtrack out dotdot (length out - 1)) out) dotdot
         else if \<not> rooted
         then (let out' = (if length out > 0 then out @ ''/'' else out) @ ''..''
               in clean_loop rooted (tl xs) out' (length out'))
         else clean_loop rooted (tl xs) out dotdot)
      else
        (let out' = (if rooted \<and> length out \<noteq> 1 \<or> \<not> rooted \<and> length out \<noteq> 0
                     then out @ ''/'' else out)
         in clean_loop rooted (dropWhile (\<lambda>x. x \<noteq> CHR ''/'') xs)
              (out' @ c # takeWhile (\<lambda>x. x \<noteq> CHR ''/'') xs) dotdot))"
  by pat_completeness auto
termination
proof (relation "measure (\<lambda>(rooted, rest, out, dotdot). length rest)")
  show "wf (measure (\<lambda>(rooted, rest, out, dotdot). length rest))" by simp
next
  fix rooted :: bool and c :: char and xs out :: string and dotdot :: nat and x :: string
  show "((rooted, dropWhile (\<lambda>x. x \<noteq> CHR ''/'') xs,
          x @ c # takeWhile (\<lambda>x. x \<noteq> CHR ''/'') xs, dotdot),
         (rooted, c # xs, out, dotdot)) \<in> measure (\<lambda>(rooted, rest, out, dotdot). length rest)"
    using length_dropWhile_le [of "\<lambda>x. x \<noteq> CHR ''/''" xs] by simp
qed (auto simp: less_Suc_eq_le)

definition path_Clean :: "string \<Rightarrow> string" where
  "path_Clean path =
     (if path = [] then ''.''
      else (let rooted = (hd path = CHR ''/'');
                out = (if rooted then clean_loop rooted (tl path) ''/'' 1
                       else clean_loop rooted path [] 0)
            in if length out = 0 then ''.'' else out))"

text \<open>\<open>path.Join(a, b)\<close>: the elements from the first non-empty one on, joined by
  slashes and cleaned; the empty string when both are empty.\<close>

definition go_path_Join :: "string \<Rightarrow> string \<Rightarrow> string" where
  "go_path_Join a b =
     (if a \<noteq> [] then path_Clean (a @ ''/'' @ b)
      else if b \<noteq> [] then path_Clean b
      else [])"

text \<open>A plain file name: not empty, without a slash, and neither \<open>.\<close> nor \<open>..\<close>.\<close>

definition plain_name :: "string \<Rightarrow> bool" where
  "plain_name s = (s \<noteq> [] \<and> CHR ''/'' \<notin> set s \<and> s \<noteq> ''.'' \<and> s \<noteq> ''..'')"

subsection \<open>Sample requests and a sample world\<close>

text \<open>Concrete inputs on which the theorems below are evaluated: a request with one
  secret, a request whose label clashes with its annotation, and a world in which the
  files \<open>files\<close> exist, every call to the runtime and to the network succeeds, and
  paths are joined by Go's \<open>path.Join\<close>.\<close>

definition echo_request :: FunctionDeployment where
  "echo_request =
     \<lparr>Service = ''echo'', Image = ''alpine'', EnvProcess = '''', EnvVars = [],
      Secrets = [''db-password''], Labels = None, Annotations = None\<rparr>"

definition echo_body :: string where
  \<open>echo_body = ''{"service":"echo","image":"alpine","secrets":["db-password"]}''\<close>

definition clash_request :: FunctionDeployment where
  "clash_request =
     \<lparr>Service = ''echo'', Image = ''alpine'', EnvProcess = '''', EnvVars = [],
      Secrets = [],
      Labels = Some [(''com.openfaas.annotations.topic'', ''orders'')],
      Annotations = Some [(''topic'', ''payments'')]\<rparr>"

definition clash_body :: string where
  \<open>clash_body = ''{"service":"echo","image":"alpine","labels":{"com.openfaas.annotations.topic":"orders"},"annotations":{"topic":"payments"}}''\<close>

definition sample_world :: "string list \<Rightarrow> world" where
  "sample_world files =
     \<lparr>Unmarshal = (\<lambda>b. if b = echo_body then Inr echo_request
                      else if b = clash_body then Inr clash_request
                      else Inl ''unexpected end of JSON input''),
      Stat = (\<lambda>p. p \<in> set files),
      path_Join = go_path_Join,
      Getwd = ''/var/lib/faasd-provider'',
      LookupEnv = (\<lambda>name. None),
      ParseNormalizedNamed = (\<lambda>s. Inr (''docker.io/library/'' @ s)),
      TagNameOnly = (\<lambda>r. r @ '':latest''),
      PrepareImage = (\<lambda>ref snapshotter pull. Inr (ImageHandle ref)),
      NewContainer = (\<lambda>opts. Inr (ContainerHandle (opt_name opts))),
      NewTask = (\<lambda>c. Inr (TaskHandle (container_ID c))),
      CreateCNINetwork = (\<lambda>t. Inr (NetworkHandle ''openfaas-cni-bridge'')),
      GetIPAddress = (\<lambda>n t. Inr ''10.62.0.2''),
      Wait = (\<lambda>t. None),
      Start = (\<lambda>t. None)\<rparr>"

section \<open>Properties\<close>

subsection \<open>Joining paths\<close>

text \<open>A plain file name is one element that \<open>path.Clean\<close> copies as it is.\<close>

lemma clean_loop_plain:
  assumes "plain_name s"
  shows "clean_loop rooted s out dotdot =
     (if rooted \<and> length out \<noteq> 1 \<or> \<not> rooted \<and> length out \<noteq> 0
      then out @ ''/'' else out) @ s"
proof -
  from assms obtain c xs where s: "s = c # xs" and c: "c \<noteq> CHR ''/''"
    and xs: "CHR ''/'' \<notin> set xs"
    by (cases s) (auto simp: plain_name_def)
  have keep: "takeWhile (\<lambda>x. x \<noteq> CHR ''/'') xs = xs"
    and none: "dropWhile (\<lambda>x. x \<noteq> CHR ''/'') xs = []"
    using xs by auto
  have dot: "(c = CHR ''.'' \<and> (xs = [] \<or> hd xs = CHR ''/'')) = False"
    using assms s xs by (cases xs) (auto simp: plain_name_def)
  have dots: "(c = CHR ''.'' \<and> hd xs = CHR ''.'' \<and> (tl xs = [] \<or> hd (tl xs) = CHR ''/'')) = False"
  proof (cases xs)
    case Nil
    with dot show ?thesis by simp
  next
    case (Cons y ys)
    with assms s xs show ?thesis by (cases ys) (auto simp: plain_name_def)
  qed
  show ?thesis
    unfolding s using c by (simp add: dot dots keep none Let_def)
qed

lemma secret_destination_plain:
  "plain_name s \<Longrightarrow> go_path_Join ''/var/openfaas/secrets'' s = ''/var/openfaas/secrets/'' @ s"
  by (simp add: go_path_Join_def path_Clean_def clean_loop_plain Let_def)

text \<open>The joins of the sample inputs.\<close>

lemma sample_joins:
  "go_path_Join ''/var/lib/faasd-provider'' ''resolv.conf'' = ''/var/lib/faasd-provider/resolv.conf''"
  "go_path_Join ''/var/lib/faasd-provider'' ''hosts'' = ''/var/lib/faasd-provider/hosts''"
  "go_path_Join ''/var/lib/faasd/secrets'' ''db-password'' = ''/var/lib/faasd/secrets/db-password''"
  "go_path_Join ''/var/openfaas/secrets'' ''db-password'' = ''/var/openfaas/secrets/db-password''"
  "go_path_Join ''/var/lib/faasd/secrets'' ''a'' = ''/var/lib/faasd/secrets/a''"
  "go_path_Join ''/var/lib/faasd/secrets'' ''b'' = ''/var/lib/faasd/secrets/b''"
  "go_path_Join ''/run/secrets'' ''a'' = ''/run/secrets/a''"
  "go_path_Join ''/run/secrets'' ''b'' = ''/run/secrets/b''"
  "go_path_Join ''/run/secrets'' ''c'' = ''/run/secrets/c''"
  by code_simp+

text \<open>A name that climbs out of its directory.\<close>

lemma escaping_joins:
  "go_path_Join ''/var/openfaas/secrets'' ''../../../etc/passwd'' = ''/etc/passwd''"
  "go_path_Join ''/var/lib/faasd/secrets'' ''../../../etc/passwd'' = ''/var/etc/passwd''"
  by code_simp+

subsection \<open>Storing under a fresh key\<close>

lemma update_fresh: "k \<notin> fst ` set al \<Longrightarrow> AList.update k v al = al @ [(k, v)]"
  by (induction al) auto

lemma copy_labels_fresh:
  "distinct (map fst (labels @ m)) \<Longrightarrow> copy_labels m labels = labels @ m"
proof (induction m labels rule: copy_labels.induct)
  case (1 labels)
  then show ?case by simp
next
  case (2 k v rest labels)
  from "2.prems" have fresh: "k \<notin> fst ` set labels" by auto
  from "2.prems" have "distinct (map fst (AList.update k v labels @ rest))"
    by (auto simp: update_fresh [OF fresh])
  with "2.IH" fresh show ?case by (simp add: update_fresh)
qed

lemma copy_labels_keys: "fst ` set (copy_labels m labels) = fst ` set labels \<union> fst ` set m"
  by (induction m labels rule: copy_labels.induct) (auto simp: dom_update image_iff)

lemma copy_labels_distinct:
  "distinct (map fst labels) \<Longrightarrow> distinct (map fst (copy_labels m labels))"
  by (induction m labels rule: copy_labels.induct) (auto simp: distinct_update)

lemma merge_annotations_fresh:
  "distinct (map fst a) \<Longrightarrow>
   \<forall>k\<in>fst ` set a. annotationLabelPrefix @ k \<notin> fst ` set labels \<Longrightarrow>
   merge_annotations a labels =
     Inr (labels @ map (\<lambda>(k, v). (annotationLabelPrefix @ k, v)) a)"
proof (induction a labels rule: merge_annotations.induct)
  case (1 labels)
  then show ?case by simp
next
  case (2 k v rest labels)
  let ?key = "annotationLabelPrefix @ k"
  from "2.prems" have fresh: "?key \<notin> fst ` set labels" by auto
  then have none: "map_of labels ?key = None" by (simp add: map_of_eq_None_iff)
  have upd: "AList.update ?key v labels = labels @ [(?key, v)]"
    using fresh by (rule update_fresh)
  from "2.prems" have "\<forall>k'\<in>fst ` set rest.
      annotationLabelPrefix @ k' \<notin> fst ` set (AList.update ?key v labels)"
    by (auto simp: upd)
  moreover from "2.prems" have "distinct (map fst rest)" by simp
  ultimately have "merge_annotations rest (AList.update ?key v labels) =
      Inr (AList.update ?key v labels @ map (\<lambda>(k, v). (annotationLabelPrefix @ k, v)) rest)"
    using "2.IH" [OF refl none] by blast
  then show ?case using none by (simp add: upd Let_def)
qed

lemma merge_annotations_clash:
  "\<exists>k\<in>fst ` set a. annotationLabelPrefix @ k \<in> fst ` set labels \<Longrightarrow>
   \<exists>k\<in>fst ` set a. merge_annotations a labels =
      Inl (''Keys '' @ k @ '' can not be used as a labels as is clashes with annotations'')"
proof (induction a labels rule: merge_annotations.induct)
  case (1 labels)
  then show ?case by simp
next
  case (2 k v rest labels)
  let ?key = "annotationLabelPrefix @ k"
  show ?case
  proof (cases "map_of labels ?key = None")
    case False
    then show ?thesis by (auto simp: Let_def)
  next
    case True
    then have "?key \<notin> fst ` set labels" by (simp add: map_of_eq_None_iff)
    with "2.prems" have "\<exists>k'\<in>fst ` set rest.
        annotationLabelPrefix @ k' \<in> fst ` set (AList.update ?key v labels)"
      by (auto simp: dom_update)
    from "2.IH" [OF refl True this] True show ?thesis by (auto simp: Let_def)
  qed
qed

text \<open>Whatever \<open>buildLabels\<close> returns as a map has distinct keys, so the length of the
  list is the \<open>len\<close> of the Go map.\<close>

lemma merge_annotations_distinct:
  "distinct (map fst labels) \<Longrightarrow> merge_annotations a labels = Inr m \<Longrightarrow>
   distinct (map fst m)"
  by (induction a labels rule: merge_annotations.induct)
     (auto simp: Let_def distinct_update split: if_splits)

lemma buildLabels_distinct: "buildLabels req = (Some m, e) \<Longrightarrow> distinct (map fst m)"
  by (auto simp: buildLabels_def Let_def copy_labels_distinct
      split: option.splits sum.splits dest!: merge_annotations_distinct [rotated])

lemma buildLabels_nil_iff_error:
  "(fst (buildLabels req) = None) = (snd (buildLabels req) \<noteq> None)"
  by (simp add: buildLabels_def Let_def split: option.splits sum.splits)

subsection \<open>The calls each function makes\<close>

lemma validateSecrets_present:
  "\<forall>s\<in>set secrets. Stat w (path_Join w mp s) \<Longrightarrow>
   validateSecrets w mp secrets log =
     (None, log @ map (\<lambda>s. CallStat (path_Join w mp s)) secrets)"
  by (induction secrets arbitrary: log) (simp_all add: Let_def)

lemma validateSecrets_missing:
  "\<forall>s\<in>set pre. Stat w (path_Join w mp s) \<Longrightarrow> \<not> Stat w (path_Join w mp s) \<Longrightarrow>
   validateSecrets w mp (pre @ s # post) log =
     (Some (''unable to find secret: '' @ s),
      log @ map (\<lambda>s. CallStat (path_Join w mp s)) (pre @ [s]))"
  by (induction pre arbitrary: log) (simp_all add: Let_def)

lemma createTask_calls:
  "\<exists>calls. snd (createTask w c log) = log @ calls \<and> (\<forall>opts. CallNewContainer opts \<notin> set calls)"
  by (simp add: createTask_def Let_def split: sum.splits option.splits)

lemma deploy_calls:
  "\<exists>calls. snd (deploy w req mp pull log) = log @ calls
     \<and> (\<forall>opts. CallNewContainer opts \<in> set calls \<longrightarrow>
          opt_mounts opts = secret_mounts w mp (Secrets req) (getMounts w)
        \<and> opt_env opts = prepareEnv (EnvProcess req) (EnvVars req)
        \<and> opt_labels opts = fst (buildLabels req))"
proof (cases "ParseNormalizedNamed w (Image req)")
  case (Inl e)
  then show ?thesis by (simp add: deploy_def)
next
  case (Inr r)
  let ?sn = "case LookupEnv w ''snapshotter'' of Some val \<Rightarrow> val | None \<Rightarrow> ''''"
  show ?thesis
  proof (cases "PrepareImage w (TagNameOnly w r) ?sn pull")
    case (Inl e)
    with Inr show ?thesis by (simp add: deploy_def Let_def)
  next
    case img: (Inr img)
    let ?opts = "\<lparr>opt_name = Service req, opt_image = img, opt_snapshotter = ?sn,
        opt_snapshot = Service req @ ''-snapshot'', opt_capabilities = [''CAP_NET_RAW''],
        opt_mounts = secret_mounts w mp (Secrets req) (getMounts w),
        opt_env = prepareEnv (EnvProcess req) (EnvVars req),
        opt_labels = fst (buildLabels req)\<rparr>"
    let ?log = "log @ [CallPrepareImage (TagNameOnly w r) ?sn pull, CallNewContainer ?opts]"
    show ?thesis
    proof (cases "NewContainer w ?opts")
      case (Inl e)
      with Inr img show ?thesis by (simp add: deploy_def Let_def)
    next
      case c: (Inr c)
      from createTask_calls [of w c ?log] obtain calls where
        calls: "snd (createTask w c ?log) = ?log @ calls"
          "\<forall>opts. CallNewContainer opts \<notin> set calls"
        by blast
      have "snd (deploy w req mp pull log) = snd (createTask w c ?log)"
        using Inr img c by (simp add: deploy_def Let_def)
      with calls have "snd (deploy w req mp pull log) =
          log @ ([CallPrepareImage (TagNameOnly w r) ?sn pull, CallNewContainer ?opts] @ calls)"
        by simp
      moreover have "\<forall>opts. CallNewContainer opts \<in>
            set ([CallPrepareImage (TagNameOnly w r) ?sn pull, CallNewContainer ?opts] @ calls) \<longrightarrow>
          opt_mounts opts = secret_mounts w mp (Secrets req) (getMounts w)
        \<and> opt_env opts = prepareEnv (EnvProcess req) (EnvVars req)
        \<and> opt_labels opts = fst (buildLabels req)"
        using calls(2) by auto
      ultimately show ?thesis by blast
    qed
  qed
qed

lemma secret_mounts_append:
  "secret_mounts w mp secrets mounts =
     mounts @ map (\<lambda>secret. \<lparr>Destination = path_Join w ''/var/openfaas/secrets'' secret,
                             Type = ''bind'',
                             Source = path_Join w mp secret,
                             Options = [''rbind'', ''ro'']\<rparr>) secrets"
  by (induction secrets arbitrary: mounts) simp_all

subsection \<open>The reserved key of the environment\<close>

text \<open>When \<open>reqEnvVars\<close> has the key \<open>fprocess\<close>, in any iteration order: the other
  entries come out as \<open>KEY=VALUE\<close>, and the last entry is the bare value of \<open>fprocess\<close>.\<close>

lemma prepareEnv_loop_reserved:
  "distinct (map fst kvs) \<Longrightarrow> (''fprocess'', v) \<in> set kvs \<Longrightarrow>
   prepareEnv_loop kvs (envs, found, fp) =
     (envs @ map (\<lambda>(k, v). k @ ''='' @ v) (filter (\<lambda>(k, v). k \<noteq> ''fprocess'') kvs), True, v)"
proof (induction kvs arbitrary: envs found fp)
  case Nil
  then show ?case by simp
next
  case (Cons kv kvs)
  obtain k x where kv: "kv = (k, x)" by (cases kv)
  show ?case
  proof (cases "k = ''fprocess''")
    case True
    with Cons.prems kv have x: "x = v" and notin: "''fprocess'' \<notin> fst ` set kvs"
      by (auto simp: image_iff)
    have "prepareEnv_loop kvs (envs, True, v) =
        (envs @ map (\<lambda>(k, v). k @ ''='' @ v) kvs, True, v)"
      using notin
    proof (induction kvs arbitrary: envs)
      case Nil
      then show ?case by simp
    next
      case (Cons a kvs)
      then show ?case by (cases a) auto
    qed
    moreover have "filter (\<lambda>(k, v). k \<noteq> ''fprocess'') kvs = kvs"
      using notin by (auto simp: filter_id_conv image_iff)
    ultimately show ?thesis using True kv x by simp
  next
    case False
    with Cons.prems kv have "(''fprocess'', v) \<in> set kvs" and "distinct (map fst kvs)"
      by auto
    from Cons.IH [OF this(2) this(1)] False kv show ?thesis by simp
  qed
qed

lemma prepareEnv_reserved:
  "distinct (map fst kvs) \<Longrightarrow> (''fprocess'', v) \<in> set kvs \<Longrightarrow>
   prepareEnv envProcess kvs =
     map (\<lambda>(k, v). k @ ''='' @ v) (filter (\<lambda>(k, v). k \<noteq> ''fprocess'') kvs) @ [v]"
  by (simp add: prepareEnv_def prepareEnv_loop_reserved)

section \<open>The claims\<close>

text \<open>
  C1 says that a request with a secret whose file is missing provisions nothing. The
  handler does report the error of \<open>validateSecrets\<close>, but that branch has no \<open>return\<close>
  (the two other error branches of the handler have one), so \<open>deploy\<close> runs all the
  same. Here the request names the secret \<open>db-password\<close>, no file exists, and the
  runtime accepts every call: after the error response the image is prepared, the
  container is created with a mount of the missing file, and the task is created,
  attached and started.
\<close>

theorem handler_deploys_after_missing_secret:
  "MakeDeployHandler (sample_world []) ''/var/lib/faasd/secrets'' False (Some echo_body) [] =
     [CallStat ''/var/lib/faasd/secrets/db-password'',
      CallHttpError ''unable to find secret: db-password'' 400,
      CallPrepareImage ''docker.io/library/alpine:latest'' '''' False,
      CallNewContainer
        \<lparr>opt_name = ''echo'',
         opt_image = ImageHandle ''docker.io/library/alpine:latest'',
         opt_snapshotter = '''', opt_snapshot = ''echo-snapshot'',
         opt_capabilities = [''CAP_NET_RAW''],
         opt_mounts =
           [\<lparr>Destination = ''/etc/resolv.conf'', Type = ''bind'',
              Source = ''/var/lib/faasd-provider/resolv.conf'', Options = [''rbind'', ''ro'']\<rparr>,
            \<lparr>Destination = ''/etc/hosts'', Type = ''bind'',
              Source = ''/var/lib/faasd-provider/hosts'', Options = [''rbind'', ''ro'']\<rparr>,
            \<lparr>Destination = ''/var/openfaas/secrets/db-password'', Type = ''bind'',
              Source = ''/var/lib/faasd/secrets/db-password'', Options = [''rbind'', ''ro'']\<rparr>],
         opt_env = [], opt_labels = Some []\<rparr>,
      CallNewTask (ContainerHandle ''echo''),
      CallCreateCNINetwork (TaskHandle ''echo''),
      CallGetIPAddress (NetworkHandle ''openfaas-cni-bridge'') (TaskHandle ''echo''),
      CallWait (TaskHandle ''echo''),
      CallStart (TaskHandle ''echo'')]"
  by (simp add: MakeDeployHandler_def sample_world_def echo_body_def echo_request_def
      deploy_def createTask_def getMounts_def prepareEnv_def buildLabels_def
      StatusBadRequest_def Let_def sample_joins)

text \<open>
  C2 says that \<open>deploy\<close> stops when \<open>buildLabels\<close> fails. The code assigns the error of
  \<open>buildLabels\<close> to \<open>err\<close> and never reads it: the next statement overwrites it with the
  error of \<open>client.NewContainer\<close>. Here the label \<open>com.openfaas.annotations.topic\<close>
  clashes with the annotation \<open>topic\<close>: \<open>buildLabels\<close> returns the nil map and the
  error, the container is created with the nil label set, the task is started, and
  \<open>deploy\<close> returns no error.
\<close>

theorem deploy_creates_container_after_label_clash:
  "buildLabels clash_request =
     (None, Some ''Keys topic can not be used as a labels as is clashes with annotations'')
   \<and> deploy (sample_world []) clash_request ''/var/lib/faasd/secrets'' False [] =
     (None,
      [CallPrepareImage ''docker.io/library/alpine:latest'' '''' False,
       CallNewContainer
         \<lparr>opt_name = ''echo'',
          opt_image = ImageHandle ''docker.io/library/alpine:latest'',
          opt_snapshotter = '''', opt_snapshot = ''echo-snapshot'',
          opt_capabilities = [''CAP_NET_RAW''],
          opt_mounts =
            [\<lparr>Destination = ''/etc/resolv.conf'', Type = ''bind'',
               Source = ''/var/lib/faasd-provider/resolv.conf'', Options = [''rbind'', ''ro'']\<rparr>,
             \<lparr>Destination = ''/etc/hosts'', Type = ''bind'',
               Source = ''/var/lib/faasd-provider/hosts'', Options = [''rbind'', ''ro'']\<rparr>],
          opt_env = [], opt_labels = None\<rparr>,
       CallNewTask (ContainerHandle ''echo''),
       CallCreateCNINetwork (TaskHandle ''echo''),
       CallGetIPAddress (NetworkHandle ''openfaas-cni-bridge'') (TaskHandle ''echo''),
       CallWait (TaskHandle ''echo''),
       CallStart (TaskHandle ''echo'')])"
proof -
  have labels: "buildLabels clash_request =
     (None, Some ''Keys topic can not be used as a labels as is clashes with annotations'')"
    by (simp add: buildLabels_def clash_request_def annotationLabelPrefix_def Let_def)
  then have "fst (buildLabels clash_request) = None"
    by simp
  then show ?thesis
    using labels
    by (simp add: deploy_def sample_world_def createTask_def getMounts_def prepareEnv_def
        Let_def sample_joins) (simp add: clash_request_def)
qed

text \<open>
  C3 says that an \<open>fprocess\<close> entry of \<open>envVars\<close> comes out as one entry
  \<open>fprocess=<value>\<close>. The code stores the bare value in \<open>fprocess\<close> (where the
  override was stored with its \<open>fprocess=\<close> in front) and appends that, so
  \<open>prepareEnv("python3", {"fprocess": "node index.js"})\<close> is the single entry
  \<open>node index.js\<close>, which has no key.
\<close>

theorem prepareEnv_reserved_key_loses_name:
  "prepareEnv ''python3'' [(''fprocess'', ''node index.js'')] = [''node index.js'']"
  by (simp add: prepareEnv_def)

text \<open>
  C4. Let \<open>L\<close> be the explicit labels and \<open>A\<close> the annotations of the request (an absent
  map counts as empty). If no key of \<open>L\<close> is the prefix followed by a key of \<open>A\<close>, then
  \<open>buildLabels\<close> succeeds, and the map it returns has exactly \<open>|L| + |A|\<close> entries:
  every entry of \<open>L\<close> as it is, and every entry of \<open>A\<close> under its prefixed key.
\<close>

theorem buildLabels_no_collision:
  assumes L: "L = (case Labels req of None \<Rightarrow> [] | Some m \<Rightarrow> m)"
    and A: "A = (case Annotations req of None \<Rightarrow> [] | Some m \<Rightarrow> m)"
    and dL: "distinct (map fst L)"
    and dA: "distinct (map fst A)"
    and free: "\<forall>k\<in>fst ` set A. annotationLabelPrefix @ k \<notin> fst ` set L"
  shows "\<exists>m. buildLabels req = (Some m, None)
           \<and> length m = length L + length A
           \<and> distinct (map fst m)
           \<and> (\<forall>(k, v)\<in>set L. map_of m k = Some v)
           \<and> (\<forall>(k, v)\<in>set A. map_of m (annotationLabelPrefix @ k) = Some v)"
proof -
  let ?m = "L @ map (\<lambda>(k, v). (annotationLabelPrefix @ k, v)) A"
  have copy: "(case Labels req of None \<Rightarrow> [] | Some m \<Rightarrow> copy_labels m []) = L"
    using L dL by (auto simp: copy_labels_fresh split: option.splits)
  have merge: "merge_annotations A L = Inr ?m"
    using dA free by (rule merge_annotations_fresh)
  have res: "buildLabels req = (Some ?m, None)"
    using copy merge A by (auto simp: buildLabels_def Let_def split: option.splits)
  have dm: "distinct (map fst ?m)"
    using buildLabels_distinct [OF res] .
  have inL: "map_of ?m k = Some v" if "(k, v) \<in> set L" for k v
    using that dm by (intro map_of_is_SomeI) auto
  have inA: "map_of ?m (annotationLabelPrefix @ k) = Some v" if "(k, v) \<in> set A" for k v
    using that dm by (intro map_of_is_SomeI) (auto simp: image_iff)
  from res dm inL inA show ?thesis by auto
qed

text \<open>The test of the repository, one label and one annotation: two entries.\<close>

theorem buildLabels_no_collision_witness:
  "\<exists>m. buildLabels (echo_request\<lparr>Labels := Some [(''function_name'', ''echo'')],
            Annotations := Some [(''current-time'', ''Wed 25 Jul 06:41:43 BST 2018'')]\<rparr>)
         = (Some m, None)
       \<and> length m = 2
       \<and> map_of m ''function_name'' = Some ''echo''
       \<and> map_of m ''com.openfaas.annotations.current-time''
            = Some ''Wed 25 Jul 06:41:43 BST 2018''"
  using buildLabels_no_collision
    [of "[(''function_name'', ''echo'')]"
        "echo_request\<lparr>Labels := Some [(''function_name'', ''echo'')],
            Annotations := Some [(''current-time'', ''Wed 25 Jul 06:41:43 BST 2018'')]\<rparr>"
        "[(''current-time'', ''Wed 25 Jul 06:41:43 BST 2018'')]"]
  by (auto simp: annotationLabelPrefix_def)

text \<open>
  C5. If some key of the labels \<open>L\<close> is the prefix followed by a key of the annotations
  \<open>A\<close>, then \<open>buildLabels\<close> returns the nil map together with the naming-collision
  error, whose message names a key of \<open>A\<close>. (With the explicit labels absent the map
  being built is empty when the annotations are visited; the keys of \<open>L\<close> are then none.)
\<close>

theorem buildLabels_collision:
  assumes L: "L = (case Labels req of None \<Rightarrow> [] | Some m \<Rightarrow> m)"
    and A: "Annotations req = Some A"
    and clash: "\<exists>k\<in>fst ` set A. annotationLabelPrefix @ k \<in> fst ` set L"
  shows "\<exists>k\<in>fst ` set A. buildLabels req =
           (None, Some (''Keys '' @ k @ '' can not be used as a labels as is clashes with annotations''))"
proof -
  let ?built = "case Labels req of None \<Rightarrow> [] | Some m \<Rightarrow> copy_labels m []"
  have "fst ` set ?built = fst ` set L"
    using L by (simp add: copy_labels_keys split: option.splits)
  with clash have "\<exists>k\<in>fst ` set A. annotationLabelPrefix @ k \<in> fst ` set ?built"
    by simp
  from merge_annotations_clash [OF this] obtain k where k: "k \<in> fst ` set A"
    and m: "merge_annotations A ?built =
      Inl (''Keys '' @ k @ '' can not be used as a labels as is clashes with annotations'')"
    by blast
  have "buildLabels req =
      (None, Some (''Keys '' @ k @ '' can not be used as a labels as is clashes with annotations''))"
    using A m by (simp add: buildLabels_def Let_def)
  with k show ?thesis by blast
qed

theorem buildLabels_collision_witness:
  "buildLabels clash_request =
     (None, Some ''Keys topic can not be used as a labels as is clashes with annotations'')"
  using buildLabels_collision
    [of "[(''com.openfaas.annotations.topic'', ''orders'')]" clash_request
        "[(''topic'', ''payments'')]"]
  by (simp add: clash_request_def annotationLabelPrefix_def)

text \<open>
  C6. The mounts that \<open>deploy\<close> builds, and passes to every container creation it
  issues, are the two fixed read-only bind mounts (\<open>/etc/resolv.conf\<close> and \<open>/etc/hosts\<close>,
  from the files \<open>resolv.conf\<close> and \<open>hosts\<close> joined to the working directory) followed by
  one read-only bind mount per secret, in the order of the secrets. The destination of
  a secret's mount is \<open>path.Join("/var/openfaas/secrets", name)\<close> and its source is
  \<open>path.Join(mountPath, name)\<close>: the cleaned paths. For a plain file name the
  destination is \<open>/var/openfaas/secrets/<name>\<close> itself. Building the list has no
  failing branch: it is a list for every input.
\<close>

theorem deploy_mount_list:
  assumes go: "path_Join w = go_path_Join"
  shows
  "secret_mounts w mountPath (Secrets req) (getMounts w) =
     [\<lparr>Destination = ''/etc/resolv.conf'', Type = ''bind'',
        Source = go_path_Join (Getwd w) ''resolv.conf'', Options = [''rbind'', ''ro'']\<rparr>,
      \<lparr>Destination = ''/etc/hosts'', Type = ''bind'',
        Source = go_path_Join (Getwd w) ''hosts'', Options = [''rbind'', ''ro'']\<rparr>]
     @ map (\<lambda>secret. \<lparr>Destination = go_path_Join ''/var/openfaas/secrets'' secret,
                        Type = ''bind'',
                        Source = go_path_Join mountPath secret,
                        Options = [''rbind'', ''ro'']\<rparr>) (Secrets req)
   \<and> (snd (deploy w req mountPath pull log) = log @ calls
        \<and> CallNewContainer opts \<in> set calls \<longrightarrow>
      opt_mounts opts = secret_mounts w mountPath (Secrets req) (getMounts w))
   \<and> (\<forall>secret\<in>set (Secrets req). plain_name secret \<longrightarrow>
        go_path_Join ''/var/openfaas/secrets'' secret = ''/var/openfaas/secrets/'' @ secret)"
proof (intro conjI)
  show "secret_mounts w mountPath (Secrets req) (getMounts w) =
     [\<lparr>Destination = ''/etc/resolv.conf'', Type = ''bind'',
        Source = go_path_Join (Getwd w) ''resolv.conf'', Options = [''rbind'', ''ro'']\<rparr>,
      \<lparr>Destination = ''/etc/hosts'', Type = ''bind'',
        Source = go_path_Join (Getwd w) ''hosts'', Options = [''rbind'', ''ro'']\<rparr>]
     @ map (\<lambda>secret. \<lparr>Destination = go_path_Join ''/var/openfaas/secrets'' secret,
                        Type = ''bind'',
                        Source = go_path_Join mountPath secret,
                        Options = [''rbind'', ''ro'']\<rparr>) (Secrets req)"
    by (simp add: secret_mounts_append getMounts_def Let_def go)
next
  from deploy_calls [of w req mountPath pull log] obtain calls' where
    run: "snd (deploy w req mountPath pull log) = log @ calls'"
    and built: "\<forall>opts. CallNewContainer opts \<in> set calls' \<longrightarrow>
      opt_mounts opts = secret_mounts w mountPath (Secrets req) (getMounts w)"
    by blast
  show "snd (deploy w req mountPath pull log) = log @ calls
        \<and> CallNewContainer opts \<in> set calls \<longrightarrow>
      opt_mounts opts = secret_mounts w mountPath (Secrets req) (getMounts w)"
    using run built by auto
next
  show "\<forall>secret\<in>set (Secrets req). plain_name secret \<longrightarrow>
        go_path_Join ''/var/openfaas/secrets'' secret = ''/var/openfaas/secrets/'' @ secret"
    by (simp add: secret_destination_plain)
qed

text \<open>The secrets \<open>a\<close> and \<open>b\<close>: four mounts, in this order.\<close>

theorem deploy_mount_list_witness:
  "\<exists>opts. CallNewContainer opts \<in>
       set (snd (deploy (sample_world []) (echo_request\<lparr>Secrets := [''a'', ''b'']\<rparr>)
                  ''/var/lib/faasd/secrets'' False []))
     \<and> opt_mounts opts =
       [\<lparr>Destination = ''/etc/resolv.conf'', Type = ''bind'',
          Source = ''/var/lib/faasd-provider/resolv.conf'', Options = [''rbind'', ''ro'']\<rparr>,
        \<lparr>Destination = ''/etc/hosts'', Type = ''bind'',
          Source = ''/var/lib/faasd-provider/hosts'', Options = [''rbind'', ''ro'']\<rparr>,
        \<lparr>Destination = ''/var/openfaas/secrets/a'', Type = ''bind'',
          Source = ''/var/lib/faasd/secrets/a'', Options = [''rbind'', ''ro'']\<rparr>,
        \<lparr>Destination = ''/var/openfaas/secrets/b'', Type = ''bind'',
          Source = ''/var/lib/faasd/secrets/b'', Options = [''rbind'', ''ro'']\<rparr>]"
proof -
  let ?w = "sample_world []"
  let ?req = "echo_request\<lparr>Secrets := [''a'', ''b'']\<rparr>"
  let ?run = "snd (deploy ?w ?req ''/var/lib/faasd/secrets'' False [])"
  have go: "path_Join ?w = go_path_Join"
    by (simp add: sample_world_def)
  obtain opts where issued: "CallNewContainer opts \<in> set ?run"
    by (simp add: deploy_def createTask_def sample_world_def echo_request_def Let_def)
  have run: "?run = [] @ ?run" by simp
  have plain: "plain_name ''a''" "plain_name ''b''"
    by (simp_all add: plain_name_def)
  note mounts_fact = deploy_mount_list [OF go, of "''/var/lib/faasd/secrets''" ?req False "[]" ?run opts]
  from mounts_fact plain have dest:
    "go_path_Join ''/var/openfaas/secrets'' ''a'' = ''/var/openfaas/secrets/a''"
    "go_path_Join ''/var/openfaas/secrets'' ''b'' = ''/var/openfaas/secrets/b''"
    by (simp_all add: echo_request_def)
  from mounts_fact run issued have "opt_mounts opts =
      [\<lparr>Destination = ''/etc/resolv.conf'', Type = ''bind'',
         Source = go_path_Join (Getwd ?w) ''resolv.conf'', Options = [''rbind'', ''ro'']\<rparr>,
       \<lparr>Destination = ''/etc/hosts'', Type = ''bind'',
         Source = go_path_Join (Getwd ?w) ''hosts'', Options = [''rbind'', ''ro'']\<rparr>]
      @ map (\<lambda>secret. \<lparr>Destination = go_path_Join ''/var/openfaas/secrets'' secret,
                         Type = ''bind'',
                         Source = go_path_Join ''/var/lib/faasd/secrets'' secret,
                         Options = [''rbind'', ''ro'']\<rparr>) (Secrets ?req)"
    by simp
  then have "opt_mounts opts =
       [\<lparr>Destination = ''/etc/resolv.conf'', Type = ''bind'',
          Source = ''/var/lib/faasd-provider/resolv.conf'', Options = [''rbind'', ''ro'']\<rparr>,
        \<lparr>Destination = ''/etc/hosts'', Type = ''bind'',
          Source = ''/var/lib/faasd-provider/hosts'', Options = [''rbind'', ''ro'']\<rparr>,
        \<lparr>Destination = ''/var/openfaas/secrets/a'', Type = ''bind'',
          Source = ''/var/lib/faasd/secrets/a'', Options = [''rbind'', ''ro'']\<rparr>,
        \<lparr>Destination = ''/var/openfaas/secrets/b'', Type = ''bind'',
          Source = ''/var/lib/faasd/secrets/b'', Options = [''rbind'', ''ro'']\<rparr>]"
    by (simp add: sample_world_def echo_request_def sample_joins dest)
  with issued show ?thesis by blast
qed

text \<open>
  As C6 is worded, the destination is \<open>/var/openfaas/secrets/<name>\<close> for every name.
  It is not: nothing checks the names, and \<open>path.Join\<close> cleans the joined path. For
  the secret \<open>../../../etc/passwd\<close> the container is created with a mount whose
  destination is \<open>/etc/passwd\<close> and whose source is \<open>/var/etc/passwd\<close>.
\<close>

theorem deploy_mount_list_counterexample:
  "deploy (sample_world []) (echo_request\<lparr>Secrets := [''../../../etc/passwd'']\<rparr>)
       ''/var/lib/faasd/secrets'' False [] =
     (None,
      [CallPrepareImage ''docker.io/library/alpine:latest'' '''' False,
       CallNewContainer
         \<lparr>opt_name = ''echo'',
          opt_image = ImageHandle ''docker.io/library/alpine:latest'',
          opt_snapshotter = '''', opt_snapshot = ''echo-snapshot'',
          opt_capabilities = [''CAP_NET_RAW''],
          opt_mounts =
            [\<lparr>Destination = ''/etc/resolv.conf'', Type = ''bind'',
               Source = ''/var/lib/faasd-provider/resolv.conf'', Options = [''rbind'', ''ro'']\<rparr>,
             \<lparr>Destination = ''/etc/hosts'', Type = ''bind'',
               Source = ''/var/lib/faasd-provider/hosts'', Options = [''rbind'', ''ro'']\<rparr>,
             \<lparr>Destination = ''/etc/passwd'', Type = ''bind'',
               Source = ''/var/etc/passwd'', Options = [''rbind'', ''ro'']\<rparr>],
          opt_env = [], opt_labels = Some []\<rparr>,
       CallNewTask (ContainerHandle ''echo''),
       CallCreateCNINetwork (TaskHandle ''echo''),
       CallGetIPAddress (NetworkHandle ''openfaas-cni-bridge'') (TaskHandle ''echo''),
       CallWait (TaskHandle ''echo''),
       CallStart (TaskHandle ''echo'')])
   \<and> ''/etc/passwd'' \<noteq> ''/var/openfaas/secrets/'' @ ''../../../etc/passwd''
   \<and> ''/var/etc/passwd'' \<noteq> ''/var/lib/faasd/secrets'' @ ''/'' @ ''../../../etc/passwd''"
  by (simp add: deploy_def sample_world_def echo_request_def createTask_def getMounts_def
      prepareEnv_def buildLabels_def Let_def sample_joins escaping_joins)

text \<open>
  C7. Whenever \<open>createTask\<close> issues the start call, the calls it has made are, in this
  order: create the task, attach it to the network, read its address, register the
  wait, start. The registration of the wait has returned without error by then, and
  the start call is the last one.
\<close>

theorem createTask_wait_before_start:
  assumes "snd (createTask w c log) = log @ calls"
    and "CallStart t \<in> set calls"
  shows "\<exists>n. calls = [CallNewTask c, CallCreateCNINetwork t, CallGetIPAddress n t,
                      CallWait t, CallStart t]
           \<and> NewTask w c = Inr t \<and> CreateCNINetwork w t = Inr n \<and> Wait w t = None"
  using assms
  by (auto simp: createTask_def Let_def split: sum.splits option.splits)

theorem createTask_wait_before_start_witness:
  "snd (createTask (sample_world []) (ContainerHandle ''echo'') []) =
     [CallNewTask (ContainerHandle ''echo''), CallCreateCNINetwork (TaskHandle ''echo''),
      CallGetIPAddress (NetworkHandle ''openfaas-cni-bridge'') (TaskHandle ''echo''),
      CallWait (TaskHandle ''echo''), CallStart (TaskHandle ''echo'')]
   \<and> Wait (sample_world []) (TaskHandle ''echo'') = None"
proof -
  let ?calls = "[CallNewTask (ContainerHandle ''echo''), CallCreateCNINetwork (TaskHandle ''echo''),
      CallGetIPAddress (NetworkHandle ''openfaas-cni-bridge'') (TaskHandle ''echo''),
      CallWait (TaskHandle ''echo''), CallStart (TaskHandle ''echo'')]"
  have run: "snd (createTask (sample_world []) (ContainerHandle ''echo'') []) = [] @ ?calls"
    by (simp add: createTask_def sample_world_def Let_def)
  have started: "CallStart (TaskHandle ''echo'') \<in> set ?calls"
    by simp
  from createTask_wait_before_start [OF run started] run show ?thesis
    by simp
qed

text \<open>
  C8. \<open>validateSecrets\<close> checks the names in their order. If every file exists, it
  returns no error after one \<open>os.Stat\<close> per name. If the names are \<open>pre\<close>, then \<open>s\<close>,
  then \<open>post\<close>, where the files of \<open>pre\<close> exist and that of \<open>s\<close> does not, it returns
  the error that names \<open>s\<close>, and the calls it has made are the checks of \<open>pre\<close> and of
  \<open>s\<close>: no name of \<open>post\<close> is checked.
\<close>

theorem validateSecrets_first_missing:
  "((\<forall>x\<in>set secrets. Stat w (path_Join w mountPath x)) \<longrightarrow>
      validateSecrets w mountPath secrets log =
        (None, log @ map (\<lambda>x. CallStat (path_Join w mountPath x)) secrets))
   \<and> ((\<forall>x\<in>set pre. Stat w (path_Join w mountPath x)) \<and> \<not> Stat w (path_Join w mountPath s) \<longrightarrow>
      validateSecrets w mountPath (pre @ s # post) log =
        (Some (''unable to find secret: '' @ s),
         log @ map (\<lambda>x. CallStat (path_Join w mountPath x)) (pre @ [s])))"
  using validateSecrets_present [of secrets w mountPath log]
    validateSecrets_missing [of pre w mountPath s post log]
  by blast

theorem validateSecrets_first_missing_witness:
  "validateSecrets (sample_world [''/run/secrets/a'', ''/run/secrets/b''])
       ''/run/secrets'' [''a'', ''b''] [] =
     (None, [CallStat ''/run/secrets/a'', CallStat ''/run/secrets/b''])
   \<and> validateSecrets (sample_world [''/run/secrets/a'', ''/run/secrets/c''])
       ''/run/secrets'' [''a'', ''b'', ''c''] [] =
     (Some ''unable to find secret: b'', [CallStat ''/run/secrets/a'', CallStat ''/run/secrets/b''])"
  using validateSecrets_first_missing
    [of "[''a'', ''b'']" "sample_world [''/run/secrets/a'', ''/run/secrets/b'']"
        "''/run/secrets''" "[]" "[]" "''x''" "[]"]
    validateSecrets_first_missing
    [of "[]" "sample_world [''/run/secrets/a'', ''/run/secrets/c'']"
        "''/run/secrets''" "[]" "[''a'']" "''b''" "[''c'']"]
  by (simp add: sample_world_def sample_joins)

text \<open>
  C9. When the request has neither labels nor annotations (both pointers nil),
  \<open>buildLabels\<close> returns an empty map that is not nil, and no error.
\<close>

theorem buildLabels_nil_inputs:
  "buildLabels (req\<lparr>Labels := None, Annotations := None\<rparr>) = (Some [], None)"
  by (simp add: buildLabels_def)

text \<open>
  C10. On an empty (or nil) sequence of secret names \<open>validateSecrets\<close> returns no
  error and makes no call: the call log is returned as it was, without any \<open>os.Stat\<close>.
\<close>

theorem validateSecrets_no_secrets:
  "validateSecrets w secretMountPath [] log = (None, log)"
  by simp

end
